theory Spec2Isabelle
  imports Main "HOL-Library.Word" "HOL-Library.Signed_Division"
begin

section \<open>Data model\<close>

text \<open>
  The OTA manager (\<^verbatim>\<open>src/OTAManager.cpp\<close>) keeps its state in static class members and
  function-local statics, and drives the global \<^verbatim>\<open>ArduinoOTA\<close> object of the transfer
  library.  The example application (\<^verbatim>\<open>tasks/OTATask.cpp\<close>) adds its own statics.  All of
  them are fields of one record \<open>sys\<close>.  Everything the code does to the outside (locking,
  logging, calls into the transfer library, hardware probes, watchdog feeds) is appended
  to the field \<open>trace\<close>, in program order.
\<close>

type_synonym u32 = "32 word"
type_synonym u16 = "16 word"

text \<open>A non-null \<^verbatim>\<open>SemaphoreHandle_t\<close>; the null handle is \<open>None\<close>.\<close>
type_synonym handle = nat

text \<open>An \<^verbatim>\<open>IPAddress\<close>, as its 32-bit value; \<^verbatim>\<open>IPAddress(0, 0, 0, 0)\<close> is \<open>0\<close>.\<close>
type_synonym ip = u32

text \<open>
  What one call reads from its environment: the clock, the outcome of a mutex allocation,
  the link probes and the connectivity provider of the example application.
\<close>
record world =
  millis :: u32
  xSemaphoreCreateMutex :: "handle option"
  eth_linkSpeed :: nat
  eth_localIP :: ip
  wifi_status :: nat
  wifi_localIP :: ip
  ethernetManager_isConnected :: bool

text \<open>The preprocessor switches the code branches on.\<close>
record build =
  ESP32_defined :: bool
  ETH_defined :: bool
  CONFIG_WIFI_ENABLED :: bool
  ENABLE_STATUS_LED :: bool

text \<open>\<^verbatim>\<open>typedef bool (*NetworkCheckCallback)()\<close>: a predicate evaluated on the environment.\<close>
type_synonym netcheck = "world \<Rightarrow> bool"

text \<open>
  The functions that are passed as lifecycle handlers: the defaults installed by
  \<^verbatim>\<open>initialize\<close>, the handlers of the example task, and any other function of the caller.
\<close>
datatype fnptr =
    DefaultOnStart
  | DefaultOnEnd
  | HandleOTAProgressFn
  | DefaultOnError
  | OnOTAStartFn
  | OnOTAEndFn
  | OnOTAProgressFn
  | OnOTAErrorFn
  | UserFn nat

text \<open>\<^verbatim>\<open>ota_error_t\<close>; \<open>OTA_OTHER\<close> is any value outside the enumeration.\<close>
datatype ota_error_t =
    OTA_AUTH_ERROR
  | OTA_BEGIN_ERROR
  | OTA_CONNECT_ERROR
  | OTA_RECEIVE_ERROR
  | OTA_END_ERROR
  | OTA_OTHER nat

text \<open>
  The level of a log line.  A line of level \<open>LOG_D\<close> is printed only in a build with
  \<^verbatim>\<open>OTAMANAGER_DEBUG\<close>; the trace records it with its level either way.
\<close>
datatype log_level = LOG_E | LOG_W | LOG_I | LOG_D

datatype log_arg = ArgU nat | ArgI int | ArgS string | ArgIP ip

text \<open>Calls into the transfer library (methods of \<^verbatim>\<open>ArduinoOTA\<close>).\<close>
datatype ota_call =
    SetHostname string
  | SetPassword string
  | SetPort u16
  | OnStart fnptr
  | OnEnd fnptr
  | OnProgress fnptr
  | OnError fnptr
  | Begin
  | Handle

datatype effect =
    Take "handle option"
  | Give "handle option"
  | Log log_level string "log_arg list"
  | OTA ota_call
  | CallNetworkCheck
  | EthLinkSpeed
  | EthLocalIP
  | WiFiStatus
  | WiFiLocalIP
  | WdtReset
  | StoreInProgress bool
  | LoadInProgress
  | LedSetBlink nat
  | LedSetPattern nat nat nat
  | LedSetOn
  | SensorSuspend
  | SensorResume
  | Delay nat
  | VTaskDelay nat
  | EspRestart

text \<open>
  Modelled from the spec: the transfer library is an external collaborator; the
  specification says the coordinator configures it (identity, credentials, port) and
  that it holds four lifecycle callback slots, a slot holding no value being a no-op
  when its event fires.  Each setter stores its argument, each registration replaces
  the slot.  The port starts at 3232, the value \<^verbatim>\<open>initialize\<close> takes for the library's
  default when it skips \<^verbatim>\<open>setPort\<close>.
\<close>
record ota_lib =
  lib_hostname :: string
  lib_password :: string
  lib_port :: u16
  start_cb :: "fnptr option"
  end_cb :: "fnptr option"
  progress_cb :: "fnptr option"
  error_cb :: "fnptr option"
  begun :: bool

record sys =
  initialized :: bool
  networkCheckCallback :: "netcheck option"
  mutex :: "handle option"
  lastLog :: u32
  lastErrorLog :: u32
  warnedOnce :: bool
  lastPrintedStep :: int
  arduinoOTA :: ota_lib
  otaUpdateInProgress :: bool
  otaStatusMutex :: "handle option"
  lastPercent :: int
  lastStatusLog :: u32
  lastNetworkState :: bool
  trace :: "effect list"

text \<open>Why a call did not return to its caller.\<close>
datatype halt = IntegerDivideByZero | DeviceRestart

type_synonym result = "(halt \<times> sys) + sys"

definition lib_boot :: ota_lib where
  "lib_boot = \<lparr>lib_hostname = [], lib_password = [], lib_port = 3232,
     start_cb = None, end_cb = None, progress_cb = None, error_cb = None, begun = False\<rparr>"

text \<open>The state after the static initialisers have run (lines 11-13 of both files).\<close>
definition boot :: sys where
  "boot = \<lparr>initialized = False, networkCheckCallback = None, mutex = None,
     lastLog = 0, lastErrorLog = 0, warnedOnce = False, lastPrintedStep = - 5,
     arduinoOTA = lib_boot, otaUpdateInProgress = False, otaStatusMutex = None,
     lastPercent = 0, lastStatusLog = 0, lastNetworkState = False, trace = []\<rparr>"

section \<open>Primitive steps\<close>

definition emit :: "effect \<Rightarrow> sys \<Rightarrow> sys" where
  "emit e s = s\<lparr>trace := trace s @ [e]\<rparr>"

definition lib_step :: "ota_call \<Rightarrow> ota_lib \<Rightarrow> ota_lib" where
  "lib_step c l =
     (case c of
        SetHostname h \<Rightarrow> l\<lparr>lib_hostname := h\<rparr>
      | SetPassword p \<Rightarrow> l\<lparr>lib_password := p\<rparr>
      | SetPort p \<Rightarrow> l\<lparr>lib_port := p\<rparr>
      | OnStart f \<Rightarrow> l\<lparr>start_cb := Some f\<rparr>
      | OnEnd f \<Rightarrow> l\<lparr>end_cb := Some f\<rparr>
      | OnProgress f \<Rightarrow> l\<lparr>progress_cb := Some f\<rparr>
      | OnError f \<Rightarrow> l\<lparr>error_cb := Some f\<rparr>
      | Begin \<Rightarrow> l\<lparr>begun := True\<rparr>
      | Handle \<Rightarrow> l)"

text \<open>A call \<^verbatim>\<open>ArduinoOTA.m(...)\<close>: recorded in the trace and applied to the library.\<close>
definition ota :: "ota_call \<Rightarrow> sys \<Rightarrow> sys" where
  "ota c s = emit (OTA c) (s\<lparr>arduinoOTA := lib_step c (arduinoOTA s)\<rparr>)"

text \<open>The transfer-library calls among a list of effects.\<close>
fun ota_calls :: "effect list \<Rightarrow> ota_call list" where
  "ota_calls [] = []"
| "ota_calls (OTA c # es) = c # ota_calls es"
| "ota_calls (e # es) = ota_calls es"

text \<open>The handles on which a lock was taken, in order.\<close>
fun takes :: "effect list \<Rightarrow> handle option list" where
  "takes [] = []"
| "takes (Take h # es) = h # takes es"
| "takes (e # es) = takes es"

section \<open>OTAManager\<close>

text \<open>
  \<^verbatim>\<open>OTAManager::initialize\<close>, lines 26-80: the part that runs with the guard constructed
  (\<open>initialize_locked\<close>), and in it lines 42-79, reached when the parameters are valid
  (\<open>configure\<close>).  Every return path leaves through the guard's destructor (\<open>Give\<close>).
\<close>
definition configure :: "string \<Rightarrow> string option \<Rightarrow> u16 \<Rightarrow> netcheck option \<Rightarrow> sys \<Rightarrow> sys" where
  "configure h password port networkCheckCb s1 =
     (let s2 = s1\<lparr>networkCheckCallback := networkCheckCb\<rparr>;
          s3 = ota (SetHostname h) s2;
          s4 = (case password of
                  None \<Rightarrow> emit (Log LOG_W ''OTA running without password protection'' []) s3
                | Some p \<Rightarrow>
                    if p = [] then
                      emit (Log LOG_W ''OTA running without password protection'' []) s3
                    else
                      emit (Log LOG_I ''OTA password protection enabled'' [])
                        (ota (SetPassword p) s3));
          s5 = (if port = 3232 then s4
                else emit (Log LOG_D ''OTA port set to %u'' [ArgU (unat port)])
                       (ota (SetPort port) s4));
          s6 = ota (OnError DefaultOnError)
                 (ota (OnProgress HandleOTAProgressFn)
                   (ota (OnEnd DefaultOnEnd) (ota (OnStart DefaultOnStart) s5)));
          s7 = ota Begin s6;
          s8 = s7\<lparr>initialized := True\<rparr>
      in emit (Log LOG_I ''OTA Manager initialized successfully'' []) s8)"

definition initialize_locked ::
  "string option \<Rightarrow> string option \<Rightarrow> u16 \<Rightarrow> netcheck option \<Rightarrow> sys \<Rightarrow> sys" where
  "initialize_locked hostname password port networkCheckCb s0 =
     (let s1 = emit (Log LOG_D ''Initializing OTA Manager'' []) (emit (Take (mutex s0)) s0);
          s9 =
            (case hostname of
               None \<Rightarrow> emit (Log LOG_E ''Hostname cannot be null or empty'' []) s1
             | Some h \<Rightarrow>
                 if h = [] then
                   emit (Log LOG_E ''Hostname cannot be null or empty'' []) s1
                 else if port = 0 then
                   emit (Log LOG_E ''Port cannot be 0'' []) s1
                 else configure h password port networkCheckCb s1)
      in emit (Give (mutex s0)) s9)"

text \<open>\<^verbatim>\<open>OTAManager::initialize\<close>, lines 15-80.\<close>
definition initialize ::
  "world \<Rightarrow> string option \<Rightarrow> string option \<Rightarrow> u16 \<Rightarrow> netcheck option \<Rightarrow> sys \<Rightarrow> sys" where
  "initialize w hostname password port networkCheckCb s =
     (let s0 = (if mutex s = None then s\<lparr>mutex := xSemaphoreCreateMutex w\<rparr> else s)
      in if mutex s0 = None then
           emit (Log LOG_E ''Failed to create mutex for OTA Manager'' []) s0
         else initialize_locked hostname password port networkCheckCb s0)"

text \<open>\<^verbatim>\<open>OTAManager::isInitialized\<close>, lines 82-85: the flag, read under the guard.\<close>
definition isInitialized :: "sys \<Rightarrow> bool \<times> sys" where
  "isInitialized s = (initialized s, emit (Give (mutex s)) (emit (Take (mutex s)) s))"

definition WL_CONNECTED :: nat where
  "WL_CONNECTED = 3"

text \<open>
  \<^verbatim>\<open>ETH.linkSpeed() > 0 && ETH.localIP() != IPAddress(0, 0, 0, 0)\<close>: the second operand is
  evaluated only when the first holds.
\<close>
definition eth_probe :: "world \<Rightarrow> sys \<Rightarrow> bool \<times> sys" where
  "eth_probe w s =
     (let s1 = emit EthLinkSpeed s
      in if 0 < eth_linkSpeed w then (eth_localIP w \<noteq> 0, emit EthLocalIP s1) else (False, s1))"

text \<open>\<^verbatim>\<open>WiFi.status() == WL_CONNECTED && WiFi.localIP() != IPAddress(0, 0, 0, 0)\<close>.\<close>
definition wifi_probe :: "world \<Rightarrow> sys \<Rightarrow> bool \<times> sys" where
  "wifi_probe w s =
     (let s1 = emit WiFiStatus s
      in if wifi_status w = WL_CONNECTED then (wifi_localIP w \<noteq> 0, emit WiFiLocalIP s1)
         else (False, s1))"

text \<open>
  \<^verbatim>\<open>OTAManager::isNetworkReady\<close>, lines 182-215, inside the guard.  The \<^verbatim>\<open>OTAM_LOG_NET\<close>
  lines expand to nothing unless network debugging is compiled in.
\<close>
definition isNetworkReady_locked :: "build \<Rightarrow> world \<Rightarrow> sys \<Rightarrow> bool \<times> sys" where
  "isNetworkReady_locked b w s =
     (case networkCheckCallback s of
        Some cb \<Rightarrow> (cb w, emit CallNetworkCheck s)
      | None \<Rightarrow>
          (let (eth, s1) = (if ESP32_defined b \<and> ETH_defined b then eth_probe w s
                            else (False, s))
           in if eth then (True, s1)
              else
                (let (wifi, s2) = (if ESP32_defined b \<and> CONFIG_WIFI_ENABLED b
                                   then wifi_probe w s1 else (False, s1))
                 in if wifi then (True, s2)
                    else if warnedOnce s2 then (False, s2)
                    else (False,
                          (emit (Log LOG_W
                             ''No network check callback provided and no network detected'' [])
                             s2)\<lparr>warnedOnce := True\<rparr>))))"

text \<open>\<^verbatim>\<open>OTAManager::isNetworkReady\<close>, lines 179-216.\<close>
definition isNetworkReady :: "build \<Rightarrow> world \<Rightarrow> sys \<Rightarrow> bool \<times> sys" where
  "isNetworkReady b w s =
     (let (ready, s1) = isNetworkReady_locked b w (emit (Take (mutex s)) s)
      in (ready, emit (Give (mutex s)) s1))"

definition OTA_LOG_INTERVAL_MS :: u32 where
  "OTA_LOG_INTERVAL_MS = 60000"

definition OTA_ERROR_LOG_INTERVAL_MS :: u32 where
  "OTA_ERROR_LOG_INTERVAL_MS = 10000"

definition OTA_PORT :: u16 where
  "OTA_PORT = 3232"

text \<open>
  Lines 106-116 of \<^verbatim>\<open>handleUpdates\<close>: the address shown in the status line.  Where a
  test succeeds, the address is read once more for the text.
\<close>
definition resolve_ip :: "build \<Rightarrow> world \<Rightarrow> sys \<Rightarrow> log_arg \<times> sys" where
  "resolve_ip b w s =
     (let (eth, s0) = (if ESP32_defined b \<and> ETH_defined b then eth_probe w s else (False, s));
          s1 = (if eth then emit EthLocalIP s0 else s0);
          a1 = (if eth then ArgIP (eth_localIP w) else ArgS ''unknown'');
          (wifi, s2) = (if ESP32_defined b \<and> CONFIG_WIFI_ENABLED b then wifi_probe w s1
                        else (False, s1));
          s3 = (if wifi then emit WiFiLocalIP s2 else s2);
          a2 = (if wifi then ArgIP (wifi_localIP w) else a1)
      in (a2, s3))"

text \<open>
  Lines 98-121 of \<^verbatim>\<open>handleUpdates\<close>, the branch taken when the network is ready: the
  guard, the second look at \<open>initialized\<close>, the service call, the throttled status line.
\<close>
definition service :: "build \<Rightarrow> world \<Rightarrow> sys \<Rightarrow> sys" where
  "service b w s =
     (let s1 = emit (Take (mutex s)) s;
          s2 = (if initialized s1 then ota Handle s1 else s1);
          now = millis w;
          s3 = (if OTA_LOG_INTERVAL_MS \<le> now - lastLog s2 then
                  (let (a, s') = resolve_ip b w s2
                   in (emit (Log LOG_D ''Waiting for OTA updates on %s:%u...''
                               [a, ArgU (unat OTA_PORT)]) s')\<lparr>lastLog := now\<rparr>)
                else s2)
      in emit (Give (mutex s)) s3)"

text \<open>Lines 123-127 of \<^verbatim>\<open>handleUpdates\<close>, the branch taken when the network is not ready.\<close>
definition not_ready :: "world \<Rightarrow> sys \<Rightarrow> sys" where
  "not_ready w s =
     (let now = millis w
      in if OTA_ERROR_LOG_INTERVAL_MS \<le> now - lastErrorLog s then
           (emit (Log LOG_E ''Network not connected, skipping OTA check'' []) s)
             \<lparr>lastErrorLog := now\<rparr>
         else s)"

text \<open>\<^verbatim>\<open>OTAManager::handleUpdates\<close>, lines 87-129.\<close>
definition handleUpdates :: "build \<Rightarrow> world \<Rightarrow> sys \<Rightarrow> sys" where
  "handleUpdates b w s =
     (if initialized s then
        (let (ready, s1) = isNetworkReady b w s
         in if ready then service b w s1 else not_ready w s1)
      else s)"

text \<open>
  The four setters, lines 131-177, differ in the registration they call and in the text
  of the debug line only.  They return \<^verbatim>\<open>void\<close>: the value handed back to the caller is
  \<open>()\<close> on every path.
\<close>
definition setCallback :: "(fnptr \<Rightarrow> ota_call) \<Rightarrow> string \<Rightarrow> fnptr option \<Rightarrow> sys \<Rightarrow> unit \<times> sys" where
  "setCallback reg msg cb s =
     (let s1 = emit (Take (mutex s)) s;
          s2 = (if initialized s1 then
                  (case cb of
                     None \<Rightarrow> s1
                   | Some f \<Rightarrow> emit (Log LOG_D msg []) (ota (reg f) s1))
                else emit (Log LOG_W ''Cannot set callback - OTA not initialized'' []) s1)
      in ((), emit (Give (mutex s)) s2))"

definition setStartCallback :: "fnptr option \<Rightarrow> sys \<Rightarrow> unit \<times> sys" where
  "setStartCallback = setCallback OnStart ''Custom OTA start callback set''"

definition setEndCallback :: "fnptr option \<Rightarrow> sys \<Rightarrow> unit \<times> sys" where
  "setEndCallback = setCallback OnEnd ''Custom OTA end callback set''"

definition setProgressCallback :: "fnptr option \<Rightarrow> sys \<Rightarrow> unit \<times> sys" where
  "setProgressCallback = setCallback OnProgress ''Custom OTA progress callback set''"

definition setErrorCallback :: "fnptr option \<Rightarrow> sys \<Rightarrow> unit \<times> sys" where
  "setErrorCallback = setCallback OnError ''Custom OTA error callback set''"

text \<open>
  The statics \<^verbatim>\<open>lastPrintedStep\<close> and \<^verbatim>\<open>lastPercent\<close> and the percentages are C \<^verbatim>\<open>int\<close>:
  integers of 32 bits in two's complement.  Their values are kept as \<open>int\<close>; a sum or
  difference the code computes on them is brought back into the 32-bit range the way the
  target's arithmetic does, by wrapping around.
\<close>
definition wrap32 :: "int \<Rightarrow> int" where
  "wrap32 k = (k + 2147483648) mod 4294967296 - 2147483648"

text \<open>
  \<^verbatim>\<open>int x = (progress * 100) / total\<close> on \<^verbatim>\<open>unsigned int\<close>: the product wraps at 32 bits,
  the division is unsigned, the quotient is read back as a signed integer.
\<close>
definition percent_of :: "u32 \<Rightarrow> u32 \<Rightarrow> int" where
  "percent_of progress total' = sint ((progress * 100) div total')"

text \<open>
  \<^verbatim>\<open>OTAManager::handleOTAProgress\<close>, lines 243-256.  The processor traps on an integer
  division by zero; \<^verbatim>\<open>%\<close> truncates towards zero (\<open>smod\<close>).  The \<^verbatim>\<open>OTAM_LOG_PROG\<close> line
  expands to nothing unless progress debugging is compiled in.
\<close>
definition handleOTAProgress :: "u32 \<Rightarrow> u32 \<Rightarrow> sys \<Rightarrow> result" where
  "handleOTAProgress progress total' s =
     (if total' = 0 then Inl (IntegerDivideByZero, s)
      else
        (let currentProgress = percent_of progress total'
         in if wrap32 (lastPrintedStep s + 5) \<le> currentProgress then
              Inr ((emit (Log LOG_I ''Progress: %u%%'' [ArgI currentProgress]) s)
                     \<lparr>lastPrintedStep :=
                        wrap32 (currentProgress - (currentProgress smod 5))\<rparr>)
            else Inr s))"

section \<open>OTATask\<close>

definition DEVICE_HOSTNAME :: string where
  "DEVICE_HOSTNAME = ''esp32-ethernet-device''"

definition OTA_PASSWORD :: string where
  "OTA_PASSWORD = ''update-password''"

definition OTA_TASK_INTERVAL_MS :: nat where
  "OTA_TASK_INTERVAL_MS = 250"

text \<open>\<^verbatim>\<open>OTATask::isNetworkConnected\<close>, lines 163-166.\<close>
definition isNetworkConnected :: netcheck where
  "isNetworkConnected w = ethernetManager_isConnected w"

text \<open>
  \<^verbatim>\<open>{ SemaphoreGuard guard(otaStatusMutex); otaUpdateInProgress = v; }\<close>, the block of lines
  171-174, 188-191 and 243-246.  The store itself is recorded in the trace.
\<close>
definition store_in_progress :: "bool \<Rightarrow> sys \<Rightarrow> sys" where
  "store_in_progress v s =
     emit (Give (otaStatusMutex s))
       ((emit (StoreInProgress v) (emit (Take (otaStatusMutex s)) s))
          \<lparr>otaUpdateInProgress := v\<rparr>)"

text \<open>
  \<^verbatim>\<open>{ SemaphoreGuard guard(otaStatusMutex); updateInProgress = otaUpdateInProgress; }\<close>,
  lines 132-135 and 145-148.
\<close>
definition load_in_progress :: "sys \<Rightarrow> bool \<times> sys" where
  "load_in_progress s =
     (otaUpdateInProgress s,
      emit (Give (otaStatusMutex s)) (emit LoadInProgress (emit (Take (otaStatusMutex s)) s)))"

text \<open>\<^verbatim>\<open>OTATask::onOTAStart\<close>, lines 168-183.\<close>
definition onOTAStart :: "build \<Rightarrow> sys \<Rightarrow> sys" where
  "onOTAStart b s =
     (let s1 = emit (Log LOG_I ''OTA update starting'' []) s;
          s2 = store_in_progress True s1;
          s3 = (if ENABLE_STATUS_LED b then emit (LedSetBlink 100) s2 else s2)
      in emit SensorSuspend s3)"

text \<open>\<^verbatim>\<open>OTATask::onOTAEnd\<close>, lines 185-203: it ends in the restart of the device.\<close>
definition onOTAEnd :: "build \<Rightarrow> sys \<Rightarrow> result" where
  "onOTAEnd b s =
     (let s1 = emit (Log LOG_I ''OTA update complete, rebooting in 1 second'' []) s;
          s2 = store_in_progress False s1;
          s3 = (if ENABLE_STATUS_LED b then emit LedSetOn s2 else s2);
          s4 = emit (Delay 1000) s3
      in Inl (DeviceRestart, emit EspRestart s4))"

text \<open>\<^verbatim>\<open>OTATask::onOTAProgress\<close>, lines 205-217.\<close>
definition onOTAProgress :: "u32 \<Rightarrow> u32 \<Rightarrow> sys \<Rightarrow> result" where
  "onOTAProgress progress total' s =
     (if total' = 0 then Inl (IntegerDivideByZero, s)
      else
        (let percent = percent_of progress total';
             s1 = (if wrap32 (lastPercent s + 10) \<le> percent \<or> percent = 100 then
                     (emit (Log LOG_I ''OTA update progress: %u%%'' [ArgI percent]) s)
                       \<lparr>lastPercent := wrap32 (percent - (percent smod 10))\<rparr>
                   else s)
         in Inr (emit WdtReset s1)))"

definition error_code :: "ota_error_t \<Rightarrow> nat" where
  "error_code e =
     (case e of
        OTA_AUTH_ERROR \<Rightarrow> 0
      | OTA_BEGIN_ERROR \<Rightarrow> 1
      | OTA_CONNECT_ERROR \<Rightarrow> 2
      | OTA_RECEIVE_ERROR \<Rightarrow> 3
      | OTA_END_ERROR \<Rightarrow> 4
      | OTA_OTHER n \<Rightarrow> n)"

definition errorMsg :: "ota_error_t \<Rightarrow> string" where
  "errorMsg e =
     (case e of
        OTA_AUTH_ERROR \<Rightarrow> ''Authentication Failed''
      | OTA_BEGIN_ERROR \<Rightarrow> ''Begin Failed''
      | OTA_CONNECT_ERROR \<Rightarrow> ''Connection Failed''
      | OTA_RECEIVE_ERROR \<Rightarrow> ''Receive Failed''
      | OTA_END_ERROR \<Rightarrow> ''End Failed''
      | OTA_OTHER n \<Rightarrow> ''Unknown Error'')"

text \<open>\<^verbatim>\<open>OTATask::onOTAError\<close>, lines 219-255.\<close>
definition onOTAError :: "build \<Rightarrow> ota_error_t \<Rightarrow> sys \<Rightarrow> sys" where
  "onOTAError b e s =
     (let s1 = emit (Log LOG_E ''OTA Error[%u]: %s'' [ArgU (error_code e), ArgS (errorMsg e)]) s;
          s2 = store_in_progress False s1;
          s3 = emit SensorResume s2
      in if ENABLE_STATUS_LED b then emit (LedSetPattern 5 100 1500) s3 else s3)"

text \<open>
  \<^verbatim>\<open>OTATask::init\<close>, lines 15-52.  The outcome of its own mutex allocation is the argument
  \<open>alloc\<close>; the allocation inside \<^verbatim>\<open>OTAManager::initialize\<close> is the one of \<open>w\<close>.
\<close>
definition OTATask_init :: "world \<Rightarrow> handle option \<Rightarrow> sys \<Rightarrow> bool \<times> sys" where
  "OTATask_init w alloc s =
     (let s1 = (emit (Log LOG_I ''Initializing OTA task'' []) s)\<lparr>otaStatusMutex := alloc\<rparr>
      in if otaStatusMutex s1 = None then
           (False, emit (Log LOG_E ''Failed to create OTA status mutex'' []) s1)
         else
           (let s2 = emit (Log LOG_I ''OTA Configuration:'' []) s1;
                s3 = emit (Log LOG_I ''  Hostname: %s'' [ArgS DEVICE_HOSTNAME]) s2;
                s4 = emit (Log LOG_I ''  Port: %d'' [ArgU (unat OTA_PORT)]) s3;
                s5 = emit (Log LOG_I ''  Password: %s''
                             [ArgS (if OTA_PASSWORD = [] then ''NOT SET'' else ''SET'')]) s4;
                s6 = initialize w (Some DEVICE_HOSTNAME) (Some OTA_PASSWORD) OTA_PORT
                       (Some isNetworkConnected) s5;
                (ok, s7) = isInitialized s6
            in if ok then
                 (let s8 = snd (setStartCallback (Some OnOTAStartFn) s7);
                      s9 = snd (setEndCallback (Some OnOTAEndFn) s8);
                      s10 = snd (setProgressCallback (Some OnOTAProgressFn) s9);
                      s11 = snd (setErrorCallback (Some OnOTAErrorFn) s10)
                  in (True, emit (Log LOG_I ''OTA task initialized successfully'' []) s11))
               else (False, emit (Log LOG_E ''OTA Manager failed to initialize'' []) s7)))"

text \<open>
  One round of the loop of \<^verbatim>\<open>OTATask::taskFunction\<close>, lines 96-159.  The clock is read
  once per round; the address in a log line is read from the interface when the line is
  written.
\<close>
definition taskLoop :: "build \<Rightarrow> world \<Rightarrow> sys \<Rightarrow> sys" where
  "taskLoop b w s =
     (let s1 = handleUpdates b w (emit WdtReset s);
          currentNetworkState = isNetworkConnected w;
          s2 = (if currentNetworkState = lastNetworkState s1 then s1
                else
                  (let s' = (emit (Log LOG_I ''Network state changed: %s -> %s''
                               [ArgS (if lastNetworkState s1 then ''Connected''
                                      else ''Disconnected''),
                                ArgS (if currentNetworkState then ''Connected''
                                      else ''Disconnected'')]) s1)
                              \<lparr>lastNetworkState := currentNetworkState\<rparr>
                   in if currentNetworkState then
                        emit (Log LOG_I ''OTA ready on IP: %s:%d''
                                [ArgIP (eth_localIP w), ArgU (unat OTA_PORT)])
                          (emit EthLocalIP s')
                      else s'));
          s3 = (if 30000 < millis w - lastStatusLog s2 then
                  (let s' = s2\<lparr>lastStatusLog := millis w\<rparr>
                   in if currentNetworkState then
                        emit (Log LOG_I ''OTA service active - IP: %s:%d''
                                [ArgIP (eth_localIP w), ArgU (unat OTA_PORT)])
                          (emit EthLocalIP s')
                      else s')
                else s2);
          (updateInProgress, s4) = load_in_progress s3;
          s5 = (if ENABLE_STATUS_LED b \<and> updateInProgress = False then
                  (if currentNetworkState then emit (LedSetBlink 500) s4
                   else emit (LedSetPattern 3 100 2000) s4)
                else s4)
      in emit WdtReset (emit (VTaskDelay OTA_TASK_INTERVAL_MS) s5))"

section \<open>Lifecycle events\<close>

datatype ota_event = EvStart | EvEnd | EvProgress u32 u32 | EvError ota_error_t

text \<open>
  Modelled from the spec: the dispatch of the external transfer library.  When an event
  fires, the handler held by the matching slot is invoked, once; an empty slot is a
  no-op.
\<close>
definition fired :: "ota_event \<Rightarrow> ota_lib \<Rightarrow> fnptr list" where
  "fired ev l =
     (case (case ev of
              EvStart \<Rightarrow> start_cb l
            | EvEnd \<Rightarrow> end_cb l
            | EvProgress p t \<Rightarrow> progress_cb l
            | EvError e \<Rightarrow> error_cb l) of
        None \<Rightarrow> []
      | Some f \<Rightarrow> [f])"

text \<open>
  What can run in the example application and touch the state of \<^verbatim>\<open>OTATask\<close>: its
  \<^verbatim>\<open>init\<close>, a round of its task loop, and its four lifecycle handlers.
\<close>
datatype app_op =
    TaskInit world "handle option"
  | TaskLoop world
  | OtaStart
  | OtaEnd
  | OtaProgress u32 u32
  | OtaError ota_error_t

definition app_step :: "build \<Rightarrow> app_op \<Rightarrow> sys \<Rightarrow> result" where
  "app_step b op s =
     (case op of
        TaskInit w alloc \<Rightarrow> Inr (snd (OTATask_init w alloc s))
      | TaskLoop w \<Rightarrow> Inr (taskLoop b w s)
      | OtaStart \<Rightarrow> Inr (onOTAStart b s)
      | OtaEnd \<Rightarrow> onOTAEnd b s
      | OtaProgress p t \<Rightarrow> onOTAProgress p t s
      | OtaError e \<Rightarrow> Inr (onOTAError b e s))"

text \<open>The state a call leaves behind, whether it returned or not.\<close>
definition state_of :: "result \<Rightarrow> sys" where
  "state_of r = (case r of Inl (h, s) \<Rightarrow> s | Inr s \<Rightarrow> s)"

definition returned :: "result \<Rightarrow> bool" where
  "returned r = (case r of Inl x \<Rightarrow> False | Inr s \<Rightarrow> True)"

text \<open>The values stored to \<^verbatim>\<open>otaUpdateInProgress\<close>, in order.\<close>
fun stores :: "effect list \<Rightarrow> bool list" where
  "stores [] = []"
| "stores (StoreInProgress v # es) = v # stores es"
| "stores (e # es) = stores es"

text \<open>The lines logged at a level, and the number of watchdog feeds, in a list of effects.\<close>
fun logged :: "log_level \<Rightarrow> effect list \<Rightarrow> (string \<times> log_arg list) list" where
  "logged lv [] = []"
| "logged lv (Log lv' msg args # es) =
     (if lv' = lv then (msg, args) # logged lv es else logged lv es)"
| "logged lv (e # es) = logged lv es"

fun feeds :: "effect list \<Rightarrow> nat" where
  "feeds [] = 0"
| "feeds (WdtReset # es) = Suc (feeds es)"
| "feeds (e # es) = feeds es"

text \<open>The queries of the readiness check: the caller's predicate and the link probes.\<close>
definition is_query :: "effect \<Rightarrow> bool" where
  "is_query e =
     (case e of
        CallNetworkCheck \<Rightarrow> True
      | EthLinkSpeed \<Rightarrow> True
      | EthLocalIP \<Rightarrow> True
      | WiFiStatus \<Rightarrow> True
      | WiFiLocalIP \<Rightarrow> True
      | _ \<Rightarrow> False)"

text \<open>\<^verbatim>\<open>password && strlen(password) > 0\<close>, and the text of the password.\<close>
definition has_password :: "string option \<Rightarrow> bool" where
  "has_password password = (case password of None \<Rightarrow> False | Some p \<Rightarrow> p \<noteq> [])"

definition password_text :: "string option \<Rightarrow> string" where
  "password_text password = (case password of None \<Rightarrow> [] | Some p \<Rightarrow> p)"

section \<open>Concrete inputs\<close>

definition world0 :: world where
  "world0 = \<lparr>millis = 20000, xSemaphoreCreateMutex = Some 1, eth_linkSpeed = 100,
     eth_localIP = 3232235876, wifi_status = 0, wifi_localIP = 0,
     ethernetManager_isConnected = True\<rparr>"

definition build0 :: build where
  "build0 = \<lparr>ESP32_defined = True, ETH_defined = True, CONFIG_WIFI_ENABLED = False,
     ENABLE_STATUS_LED = True\<rparr>"

text \<open>The connectivity provider reports no link, and no link is up.\<close>
definition world_down :: world where
  "world_down = \<lparr>millis = 20000, xSemaphoreCreateMutex = Some 1, eth_linkSpeed = 0,
     eth_localIP = 0, wifi_status = 0, wifi_localIP = 0,
     ethernetManager_isConnected = False\<rparr>"

text \<open>
  The state after \<^verbatim>\<open>initialize("dev1", nullptr, 3232, isNetworkConnected)\<close> on a freshly
  booted device.
\<close>
definition dev1 :: sys where
  "dev1 = initialize world0 (Some ''dev1'') None 3232 (Some isNetworkConnected) boot"

text \<open>The wired link is down, the wireless one is associated and has an address.\<close>
definition world_wifi :: world where
  "world_wifi = \<lparr>millis = 20000, xSemaphoreCreateMutex = Some 1, eth_linkSpeed = 0,
     eth_localIP = 0, wifi_status = 3, wifi_localIP = 167772165,
     ethernetManager_isConnected = False\<rparr>"

definition build_both :: build where
  "build_both = \<lparr>ESP32_defined = True, ETH_defined = True, CONFIG_WIFI_ENABLED = True,
     ENABLE_STATUS_LED = True\<rparr>"

text \<open>The state after \<^verbatim>\<open>OTATask::init\<close> on a freshly booted device.\<close>
definition task0 :: sys where
  "task0 = snd (OTATask_init world0 (Some 2) boot)"

section \<open>Basic facts\<close>

lemma trace_emit [simp]: "trace (emit e s) = trace s @ [e]"
  by (simp add: emit_def)

lemma emit_fields [simp]:
  "initialized (emit e s) = initialized s"
  "networkCheckCallback (emit e s) = networkCheckCallback s"
  "mutex (emit e s) = mutex s"
  "lastLog (emit e s) = lastLog s"
  "lastErrorLog (emit e s) = lastErrorLog s"
  "warnedOnce (emit e s) = warnedOnce s"
  "lastPrintedStep (emit e s) = lastPrintedStep s"
  "arduinoOTA (emit e s) = arduinoOTA s"
  "otaUpdateInProgress (emit e s) = otaUpdateInProgress s"
  "otaStatusMutex (emit e s) = otaStatusMutex s"
  "lastPercent (emit e s) = lastPercent s"
  "lastStatusLog (emit e s) = lastStatusLog s"
  "lastNetworkState (emit e s) = lastNetworkState s"
  by (simp_all add: emit_def)

lemma ota_calls_append [simp]: "ota_calls (xs @ ys) = ota_calls xs @ ota_calls ys"
  by (induction xs rule: ota_calls.induct) simp_all

lemma takes_append [simp]: "takes (xs @ ys) = takes xs @ takes ys"
  by (induction xs rule: takes.induct) simp_all

lemma stores_append [simp]: "stores (xs @ ys) = stores xs @ stores ys"
  by (induction xs rule: stores.induct) simp_all

lemma feeds_append [simp]: "feeds (xs @ ys) = feeds xs + feeds ys"
  by (induction xs rule: feeds.induct) simp_all

lemma logged_append [simp]: "logged lv (xs @ ys) = logged lv xs @ logged lv ys"
  by (induction lv xs rule: logged.induct) simp_all

lemma ota_fields [simp]:
  "trace (ota c s) = trace s @ [OTA c]"
  "arduinoOTA (ota c s) = lib_step c (arduinoOTA s)"
  "initialized (ota c s) = initialized s"
  "networkCheckCallback (ota c s) = networkCheckCallback s"
  "mutex (ota c s) = mutex s"
  "lastLog (ota c s) = lastLog s"
  "lastErrorLog (ota c s) = lastErrorLog s"
  "warnedOnce (ota c s) = warnedOnce s"
  "lastPrintedStep (ota c s) = lastPrintedStep s"
  "otaUpdateInProgress (ota c s) = otaUpdateInProgress s"
  "otaStatusMutex (ota c s) = otaStatusMutex s"
  "lastPercent (ota c s) = lastPercent s"
  "lastStatusLog (ota c s) = lastStatusLog s"
  "lastNetworkState (ota c s) = lastNetworkState s"
  by (simp_all add: ota_def)

lemma lib_step_simps [simp]:
  "lib_step (SetHostname h) l = l\<lparr>lib_hostname := h\<rparr>"
  "lib_step (SetPassword p) l = l\<lparr>lib_password := p\<rparr>"
  "lib_step (SetPort q) l = l\<lparr>lib_port := q\<rparr>"
  "lib_step (OnStart f) l = l\<lparr>start_cb := Some f\<rparr>"
  "lib_step (OnEnd f) l = l\<lparr>end_cb := Some f\<rparr>"
  "lib_step (OnProgress f) l = l\<lparr>progress_cb := Some f\<rparr>"
  "lib_step (OnError f) l = l\<lparr>error_cb := Some f\<rparr>"
  "lib_step Begin l = l\<lparr>begun := True\<rparr>"
  "lib_step Handle l = l"
  by (simp_all add: lib_step_def)

subsection \<open>initialize\<close>

lemma initialize_locked_invalid:
  assumes "hostname = None \<or> hostname = Some [] \<or> port = 0"
  shows "trace (initialize_locked hostname password port cb s) =
           trace s @ [Take (mutex s), Log LOG_D ''Initializing OTA Manager'' [],
                      Log LOG_E (if hostname = None \<or> hostname = Some []
                                 then ''Hostname cannot be null or empty''
                                 else ''Port cannot be 0'') [],
                      Give (mutex s)]"
    and "initialized (initialize_locked hostname password port cb s) = initialized s"
    and "networkCheckCallback (initialize_locked hostname password port cb s) =
           networkCheckCallback s"
    and "arduinoOTA (initialize_locked hostname password port cb s) = arduinoOTA s"
    and "mutex (initialize_locked hostname password port cb s) = mutex s"
  using assms by (auto simp: initialize_locked_def Let_def split: option.splits)

lemma configure_mutex [simp]:
  "mutex (configure h password port cb s) = mutex s"
  by (simp add: configure_def Let_def split: option.splits)

lemma initialize_locked_mutex [simp]:
  "mutex (initialize_locked hostname password port cb s) = mutex s"
  by (simp add: initialize_locked_def Let_def split: option.splits)

lemma initialize_mutex:
  "mutex (initialize w hostname password port cb s) =
     (if mutex s = None then xSemaphoreCreateMutex w else mutex s)"
  by (auto simp: initialize_def Let_def)

lemma initialize_invalid:
  assumes "hostname = None \<or> hostname = Some [] \<or> port = 0"
  shows "initialized (initialize w hostname password port cb s) = initialized s"
    and "networkCheckCallback (initialize w hostname password port cb s) =
           networkCheckCallback s"
    and "arduinoOTA (initialize w hostname password port cb s) = arduinoOTA s"
    and "ota_calls (trace (initialize w hostname password port cb s)) = ota_calls (trace s)"
    and "takes (trace (initialize w hostname password port cb s)) =
           takes (trace s) @
             (case mutex (initialize w hostname password port cb s) of
                None \<Rightarrow> [] | Some h \<Rightarrow> [Some h])"
  using assms
  by (auto simp: initialize_def initialize_locked_invalid Let_def)

lemma is_query_simps [simp]:
  "is_query CallNetworkCheck" "is_query EthLinkSpeed" "is_query EthLocalIP"
  "is_query WiFiStatus" "is_query WiFiLocalIP"
  "\<not> is_query (Take h)" "\<not> is_query (Give h)" "\<not> is_query (Log lv msg args)"
  "\<not> is_query (OTA c)"
  by (simp_all add: is_query_def)

subsection \<open>isNetworkReady\<close>

lemma eth_probe_simps [simp]:
  "fst (eth_probe w s) = (0 < eth_linkSpeed w \<and> eth_localIP w \<noteq> 0)"
  "snd (eth_probe w s) =
     (if 0 < eth_linkSpeed w then emit EthLocalIP (emit EthLinkSpeed s) else emit EthLinkSpeed s)"
  by (simp_all add: eth_probe_def Let_def)

lemma wifi_probe_simps [simp]:
  "fst (wifi_probe w s) = (wifi_status w = WL_CONNECTED \<and> wifi_localIP w \<noteq> 0)"
  "snd (wifi_probe w s) =
     (if wifi_status w = WL_CONNECTED then emit WiFiLocalIP (emit WiFiStatus s)
      else emit WiFiStatus s)"
  by (simp_all add: wifi_probe_def Let_def)

lemma isNetworkReady_custom:
  "networkCheckCallback s = Some cb \<Longrightarrow>
   isNetworkReady b w s =
     (cb w, emit (Give (mutex s)) (emit CallNetworkCheck (emit (Take (mutex s)) s)))"
  by (simp add: isNetworkReady_def isNetworkReady_locked_def)

lemma isNetworkReady_default_result:
  "networkCheckCallback s = None \<Longrightarrow>
   fst (isNetworkReady b w s) =
     (ESP32_defined b \<and>
      (ETH_defined b \<and> 0 < eth_linkSpeed w \<and> eth_localIP w \<noteq> 0 \<or>
       CONFIG_WIFI_ENABLED b \<and> wifi_status w = WL_CONNECTED \<and> wifi_localIP w \<noteq> 0))"
  by (auto simp: isNetworkReady_def isNetworkReady_locked_def case_prod_beta Let_def)

lemma isNetworkReady_default_queries:
  "networkCheckCallback s = None \<Longrightarrow>
   filter is_query (trace (snd (isNetworkReady b w s))) =
     filter is_query (trace s) @
       (if ESP32_defined b \<and> ETH_defined b then
          (if 0 < eth_linkSpeed w then [EthLinkSpeed, EthLocalIP] else [EthLinkSpeed])
        else []) @
       (if ESP32_defined b \<and> ETH_defined b \<and> 0 < eth_linkSpeed w \<and> eth_localIP w \<noteq> 0
        then []
        else if ESP32_defined b \<and> CONFIG_WIFI_ENABLED b then
          (if wifi_status w = WL_CONNECTED then [WiFiStatus, WiFiLocalIP] else [WiFiStatus])
        else [])"
  by (auto simp: isNetworkReady_def isNetworkReady_locked_def case_prod_beta Let_def)

lemma isNetworkReady_fields [simp]:
  "initialized (snd (isNetworkReady b w s)) = initialized s"
  "mutex (snd (isNetworkReady b w s)) = mutex s"
  "lastLog (snd (isNetworkReady b w s)) = lastLog s"
  "lastErrorLog (snd (isNetworkReady b w s)) = lastErrorLog s"
  "arduinoOTA (snd (isNetworkReady b w s)) = arduinoOTA s"
  "networkCheckCallback (snd (isNetworkReady b w s)) = networkCheckCallback s"
  "otaUpdateInProgress (snd (isNetworkReady b w s)) = otaUpdateInProgress s"
  "otaStatusMutex (snd (isNetworkReady b w s)) = otaStatusMutex s"
  "lastNetworkState (snd (isNetworkReady b w s)) = lastNetworkState s"
  "lastStatusLog (snd (isNetworkReady b w s)) = lastStatusLog s"
  "ota_calls (trace (snd (isNetworkReady b w s))) = ota_calls (trace s)"
  "stores (trace (snd (isNetworkReady b w s))) = stores (trace s)"
  by (simp_all add: isNetworkReady_def isNetworkReady_locked_def case_prod_beta Let_def
        split: option.splits)

subsection \<open>handleUpdates\<close>

lemma resolve_ip_fields [simp]:
  "initialized (snd (resolve_ip b w s)) = initialized s"
  "mutex (snd (resolve_ip b w s)) = mutex s"
  "arduinoOTA (snd (resolve_ip b w s)) = arduinoOTA s"
  "otaUpdateInProgress (snd (resolve_ip b w s)) = otaUpdateInProgress s"
  "otaStatusMutex (snd (resolve_ip b w s)) = otaStatusMutex s"
  "lastNetworkState (snd (resolve_ip b w s)) = lastNetworkState s"
  "lastStatusLog (snd (resolve_ip b w s)) = lastStatusLog s"
  "ota_calls (trace (snd (resolve_ip b w s))) = ota_calls (trace s)"
  "stores (trace (snd (resolve_ip b w s))) = stores (trace s)"
  by (simp_all add: resolve_ip_def case_prod_beta Let_def)

lemma resolve_ip_trace:
  "\<exists>es. trace (snd (resolve_ip b w s)) = trace s @ es"
  by (simp add: resolve_ip_def case_prod_beta Let_def)

lemma service_trace:
  "\<exists>rest. trace (service b w s) =
     trace s @ Take (mutex s) # (if initialized s then [OTA Handle] else []) @ rest"
proof -
  obtain es where es: "trace (snd (resolve_ip b w
      (if initialized s then ota Handle (emit (Take (mutex s)) s) else emit (Take (mutex s)) s))) =
      trace (if initialized s then ota Handle (emit (Take (mutex s)) s) else emit (Take (mutex s)) s) @ es"
    using resolve_ip_trace by blast
  show ?thesis
    using es by (auto simp: service_def case_prod_beta Let_def)
qed

lemma service_fields [simp]:
  "initialized (service b w s) = initialized s"
  "mutex (service b w s) = mutex s"
  "arduinoOTA (service b w s) = arduinoOTA s"
  "otaUpdateInProgress (service b w s) = otaUpdateInProgress s"
  "otaStatusMutex (service b w s) = otaStatusMutex s"
  "lastNetworkState (service b w s) = lastNetworkState s"
  "lastStatusLog (service b w s) = lastStatusLog s"
  "ota_calls (trace (service b w s)) = ota_calls (trace s) @ (if initialized s then [Handle] else [])"
  "stores (trace (service b w s)) = stores (trace s)"
  by (simp_all add: service_def case_prod_beta Let_def)

lemma not_ready_fields [simp]:
  "initialized (not_ready w s) = initialized s"
  "mutex (not_ready w s) = mutex s"
  "arduinoOTA (not_ready w s) = arduinoOTA s"
  "otaUpdateInProgress (not_ready w s) = otaUpdateInProgress s"
  "otaStatusMutex (not_ready w s) = otaStatusMutex s"
  "lastNetworkState (not_ready w s) = lastNetworkState s"
  "lastStatusLog (not_ready w s) = lastStatusLog s"
  "ota_calls (trace (not_ready w s)) = ota_calls (trace s)"
  "stores (trace (not_ready w s)) = stores (trace s)"
  "trace (not_ready w s) =
     trace s @ (if OTA_ERROR_LOG_INTERVAL_MS \<le> millis w - lastErrorLog s
                then [Log LOG_E ''Network not connected, skipping OTA check'' []] else [])"
  "lastErrorLog (not_ready w s) =
     (if OTA_ERROR_LOG_INTERVAL_MS \<le> millis w - lastErrorLog s then millis w
      else lastErrorLog s)"
  by (simp_all add: not_ready_def Let_def)

lemma handleUpdates_uninitialized: "\<not> initialized s \<Longrightarrow> handleUpdates b w s = s"
  by (simp add: handleUpdates_def)

lemma handleUpdates_not_ready:
  assumes "initialized s" "\<not> fst (isNetworkReady b w s)"
  shows "handleUpdates b w s = not_ready w (snd (isNetworkReady b w s))"
  using assms by (simp add: handleUpdates_def case_prod_beta)

lemma handleUpdates_ready:
  assumes "initialized s" "fst (isNetworkReady b w s)"
  shows "handleUpdates b w s = service b w (snd (isNetworkReady b w s))"
  using assms by (simp add: handleUpdates_def case_prod_beta)

lemma handleUpdates_fields [simp]:
  "initialized (handleUpdates b w s) = initialized s"
  "mutex (handleUpdates b w s) = mutex s"
  "arduinoOTA (handleUpdates b w s) = arduinoOTA s"
  "otaUpdateInProgress (handleUpdates b w s) = otaUpdateInProgress s"
  "otaStatusMutex (handleUpdates b w s) = otaStatusMutex s"
  "lastNetworkState (handleUpdates b w s) = lastNetworkState s"
  "lastStatusLog (handleUpdates b w s) = lastStatusLog s"
  "stores (trace (handleUpdates b w s)) = stores (trace s)"
  by (simp_all add: handleUpdates_def case_prod_beta)

subsection \<open>initialize, valid parameters\<close>

lemma configure_fields:
  "initialized (configure h password port cb s) = True"
  "networkCheckCallback (configure h password port cb s) = cb"
  "lib_hostname (arduinoOTA (configure h password port cb s)) = h"
  "lib_password (arduinoOTA (configure h password port cb s)) =
     (if has_password password then password_text password else lib_password (arduinoOTA s))"
  "lib_port (arduinoOTA (configure h password port cb s)) =
     (if port = 3232 then lib_port (arduinoOTA s) else port)"
  "start_cb (arduinoOTA (configure h password port cb s)) = Some DefaultOnStart"
  "end_cb (arduinoOTA (configure h password port cb s)) = Some DefaultOnEnd"
  "progress_cb (arduinoOTA (configure h password port cb s)) = Some HandleOTAProgressFn"
  "error_cb (arduinoOTA (configure h password port cb s)) = Some DefaultOnError"
  "ota_calls (trace (configure h password port cb s)) =
     ota_calls (trace s) @ [SetHostname h] @
       (if has_password password then [SetPassword (password_text password)] else []) @
       (if port = 3232 then [] else [SetPort port]) @
       [OnStart DefaultOnStart, OnEnd DefaultOnEnd, OnProgress HandleOTAProgressFn,
        OnError DefaultOnError, Begin]"
  "otaUpdateInProgress (configure h password port cb s) = otaUpdateInProgress s"
  "otaStatusMutex (configure h password port cb s) = otaStatusMutex s"
  "stores (trace (configure h password port cb s)) = stores (trace s)"
  by (simp_all add: configure_def has_password_def password_text_def Let_def
        split: option.splits)

lemma initialize_locked_valid:
  assumes "h \<noteq> []" "port \<noteq> 0"
  shows "initialize_locked (Some h) password port cb s =
           emit (Give (mutex s))
             (configure h password port cb
               (emit (Log LOG_D ''Initializing OTA Manager'' []) (emit (Take (mutex s)) s)))"
  using assms by (simp add: initialize_locked_def Let_def)

lemma initialize_valid:
  assumes "h \<noteq> []" "port \<noteq> 0" "mutex s \<noteq> None \<or> xSemaphoreCreateMutex w \<noteq> None"
  shows "initialized (initialize w (Some h) password port cb s) = True"
    and "networkCheckCallback (initialize w (Some h) password port cb s) = cb"
    and "lib_hostname (arduinoOTA (initialize w (Some h) password port cb s)) = h"
    and "lib_password (arduinoOTA (initialize w (Some h) password port cb s)) =
     (if has_password password then password_text password else lib_password (arduinoOTA s))"
    and "lib_port (arduinoOTA (initialize w (Some h) password port cb s)) =
     (if port = 3232 then lib_port (arduinoOTA s) else port)"
    and "start_cb (arduinoOTA (initialize w (Some h) password port cb s)) = Some DefaultOnStart"
    and "end_cb (arduinoOTA (initialize w (Some h) password port cb s)) = Some DefaultOnEnd"
    and "progress_cb (arduinoOTA (initialize w (Some h) password port cb s)) =
           Some HandleOTAProgressFn"
    and "error_cb (arduinoOTA (initialize w (Some h) password port cb s)) = Some DefaultOnError"
    and "ota_calls (trace (initialize w (Some h) password port cb s)) =
     ota_calls (trace s) @ [SetHostname h] @
       (if has_password password then [SetPassword (password_text password)] else []) @
       (if port = 3232 then [] else [SetPort port]) @
       [OnStart DefaultOnStart, OnEnd DefaultOnEnd, OnProgress HandleOTAProgressFn,
        OnError DefaultOnError, Begin]"
  using assms
  by (auto simp: initialize_def initialize_locked_valid configure_fields Let_def)

lemma initialize_app_fields [simp]:
  "otaUpdateInProgress (initialize w hostname password port cb s) = otaUpdateInProgress s"
  "otaStatusMutex (initialize w hostname password port cb s) = otaStatusMutex s"
  "stores (trace (initialize w hostname password port cb s)) = stores (trace s)"
  by (simp_all add: initialize_def initialize_locked_def configure_fields Let_def
        split: option.splits)

subsection \<open>Callback setters\<close>

lemma setCallback_rejected:
  "\<not> initialized s \<Longrightarrow>
   setCallback reg msg cb s =
     ((), emit (Give (mutex s))
            (emit (Log LOG_W ''Cannot set callback - OTA not initialized'' [])
              (emit (Take (mutex s)) s)))"
  by (simp add: setCallback_def Let_def)

lemma setCallback_null:
  "initialized s \<Longrightarrow>
   setCallback reg msg None s = ((), emit (Give (mutex s)) (emit (Take (mutex s)) s))"
  by (simp add: setCallback_def Let_def)

lemma setCallback_installed:
  "initialized s \<Longrightarrow>
   setCallback reg msg (Some f) s =
     ((), emit (Give (mutex s)) (emit (Log LOG_D msg []) (ota (reg f) (emit (Take (mutex s)) s))))"
  by (simp add: setCallback_def Let_def)

lemma setCallback_fields [simp]:
  "initialized (snd (setCallback reg msg cb s)) = initialized s"
  "mutex (snd (setCallback reg msg cb s)) = mutex s"
  "otaUpdateInProgress (snd (setCallback reg msg cb s)) = otaUpdateInProgress s"
  "otaStatusMutex (snd (setCallback reg msg cb s)) = otaStatusMutex s"
  "stores (trace (snd (setCallback reg msg cb s))) = stores (trace s)"
  "takes (trace (snd (setCallback reg msg cb s))) = takes (trace s) @ [mutex s]"
  by (simp_all add: setCallback_def Let_def split: option.splits)

lemmas setter_defs =
  setStartCallback_def setEndCallback_def setProgressCallback_def setErrorCallback_def

lemma boot_simps [simp]:
  "initialized boot = False" "mutex boot = None" "trace boot = []"
  "networkCheckCallback boot = None" "arduinoOTA boot = lib_boot"
  "otaUpdateInProgress boot = False" "lastErrorLog boot = 0" "lastLog boot = 0"
  "lastPercent boot = 0" "lastPrintedStep boot = - 5" "otaStatusMutex boot = None"
  by (simp_all add: boot_def)

lemma world0_simps [simp]:
  "millis world0 = 20000" "xSemaphoreCreateMutex world0 = Some 1"
  "ethernetManager_isConnected world0 = True" "eth_linkSpeed world0 = 100"
  "eth_localIP world0 = 3232235876"
  by (simp_all add: world0_def)

lemma world_down_simps [simp]:
  "millis world_down = 20000" "xSemaphoreCreateMutex world_down = Some 1"
  "ethernetManager_isConnected world_down = False" "eth_linkSpeed world_down = 0"
  by (simp_all add: world_down_def)

lemma dev1_simps [simp]:
  "initialized dev1 = True"
  "networkCheckCallback dev1 = Some isNetworkConnected"
  "mutex dev1 = Some 1"
  "lastErrorLog dev1 = 0"
  "ota_calls (trace dev1) =
     [SetHostname ''dev1'', OnStart DefaultOnStart, OnEnd DefaultOnEnd,
      OnProgress HandleOTAProgressFn, OnError DefaultOnError, Begin]"
  "start_cb (arduinoOTA dev1) = Some DefaultOnStart"
  by (simp_all add: dev1_def initialize_valid initialize_mutex has_password_def
        initialize_def initialize_locked_valid configure_def)

subsection \<open>Lifecycle dispatch and progress handlers\<close>

lemma fired_simps [simp]:
  "fired EvStart l = (case start_cb l of None \<Rightarrow> [] | Some f \<Rightarrow> [f])"
  "fired EvEnd l = (case end_cb l of None \<Rightarrow> [] | Some f \<Rightarrow> [f])"
  "fired (EvProgress p t) l = (case progress_cb l of None \<Rightarrow> [] | Some f \<Rightarrow> [f])"
  "fired (EvError e) l = (case error_cb l of None \<Rightarrow> [] | Some f \<Rightarrow> [f])"
  by (simp_all add: fired_def)

lemma smod_lt: "(k::int) smod 5 < 5" and smod_lt10: "(k::int) smod 10 < 10"
  using smod_int_range [of 5 k] smod_int_range [of 10 k] by simp_all

lemma wrap32_id: "- 2147483648 \<le> k \<Longrightarrow> k < 2147483648 \<Longrightarrow> wrap32 k = k"
  by (simp add: wrap32_def)

lemma percent_of_range:
  "- 2147483648 \<le> percent_of progress total'" "percent_of progress total' < 2147483648"
  using sint_ge [of "(progress * 100) div total'"] sint_lt [of "(progress * 100) div total'"]
  by (simp_all add: percent_of_def)

text \<open>Rounding towards zero to a multiple of \<open>n\<close> stays between zero and the number.\<close>
lemma round_between:
  fixes k n :: int
  assumes "0 < n"
  shows "min 0 k \<le> k - k smod n" and "k - k smod n \<le> max 0 k"
proof -
  have "\<bar>k\<bar> mod n \<le> \<bar>k\<bar>" "0 \<le> \<bar>k\<bar> mod n"
    using assms by (simp_all add: zmod_le_nonneg_dividend)
  then show "min 0 k \<le> k - k smod n" and "k - k smod n \<le> max 0 k"
    using assms by (auto simp: signed_modulo_int_def sgn_if)
qed

lemma percent_round [simp]:
  assumes "0 < n"
  shows "wrap32 (percent_of progress total' - percent_of progress total' smod n) =
           percent_of progress total' - percent_of progress total' smod n"
  using round_between [OF assms, of "percent_of progress total'"]
        percent_of_range [of progress total']
  by (intro wrap32_id) auto

lemma state_of_simps [simp]:
  "state_of (Inr s) = s" "state_of (Inl (h, s)) = s"
  "returned (Inr s) = True" "returned (Inl x) = False"
  by (simp_all add: state_of_def returned_def)

lemma percent_of_values [simp]:
  "percent_of 50 100 = 50" "percent_of 100 100 = 100" "percent_of 0 100 = 0"
  by (simp_all add: percent_of_def)

lemma handleOTAProgress_zero: "handleOTAProgress progress 0 s = Inl (IntegerDivideByZero, s)"
  by (simp add: handleOTAProgress_def)

lemma onOTAProgress_zero: "onOTAProgress progress 0 s = Inl (IntegerDivideByZero, s)"
  by (simp add: onOTAProgress_def)

lemma handleOTAProgress_nonzero:
  "total' \<noteq> 0 \<Longrightarrow>
   handleOTAProgress progress total' s =
     Inr (if wrap32 (lastPrintedStep s + 5) \<le> percent_of progress total' then
            (emit (Log LOG_I ''Progress: %u%%'' [ArgI (percent_of progress total')]) s)
              \<lparr>lastPrintedStep :=
                 percent_of progress total' - (percent_of progress total' smod 5)\<rparr>
          else s)"
  by (simp add: handleOTAProgress_def Let_def)

lemma onOTAProgress_nonzero:
  "total' \<noteq> 0 \<Longrightarrow>
   onOTAProgress progress total' s =
     Inr (emit WdtReset
       (if wrap32 (lastPercent s + 10) \<le> percent_of progress total' \<or>
           percent_of progress total' = 100
        then (emit (Log LOG_I ''OTA update progress: %u%%'' [ArgI (percent_of progress total')]) s)
               \<lparr>lastPercent :=
                  percent_of progress total' - (percent_of progress total' smod 10)\<rparr>
        else s))"
  by (simp add: onOTAProgress_def Let_def)

lemma handleOTAProgress_facts:
  assumes "total' \<noteq> 0"
  shows "returned (handleOTAProgress progress total' s)"
    and "feeds (trace (state_of (handleOTAProgress progress total' s))) = feeds (trace s)"
    and "logged LOG_I (trace (state_of (handleOTAProgress progress total' s))) =
           logged LOG_I (trace s) @
             (if wrap32 (lastPrintedStep s + 5) \<le> percent_of progress total'
              then [(''Progress: %u%%'', [ArgI (percent_of progress total')])] else [])"
    and "lastPrintedStep (state_of (handleOTAProgress progress total' s)) =
           (if wrap32 (lastPrintedStep s + 5) \<le> percent_of progress total'
            then percent_of progress total' - (percent_of progress total' smod 5)
            else lastPrintedStep s)"
    and "otaUpdateInProgress (state_of (handleOTAProgress progress total' s)) =
           otaUpdateInProgress s"
  using assms by (simp_all add: handleOTAProgress_nonzero)

lemma onOTAProgress_facts:
  assumes "total' \<noteq> 0"
  shows "returned (onOTAProgress progress total' s)"
    and "feeds (trace (state_of (onOTAProgress progress total' s))) = feeds (trace s) + 1"
    and "last (trace (state_of (onOTAProgress progress total' s))) = WdtReset"
    and "logged LOG_I (trace (state_of (onOTAProgress progress total' s))) =
           logged LOG_I (trace s) @
             (if wrap32 (lastPercent s + 10) \<le> percent_of progress total' \<or>
                 percent_of progress total' = 100
              then [(''OTA update progress: %u%%'', [ArgI (percent_of progress total')])]
              else [])"
    and "lastPercent (state_of (onOTAProgress progress total' s)) =
           (if wrap32 (lastPercent s + 10) \<le> percent_of progress total' \<or>
               percent_of progress total' = 100
            then percent_of progress total' - (percent_of progress total' smod 10)
            else lastPercent s)"
  using assms by (simp_all add: onOTAProgress_nonzero)

text \<open>
  After a step was logged, the next threshold lies above the percentage, unless the
  addition overflows.
\<close>
lemma next_threshold:
  fixes c n :: int
  assumes "0 < n" "c smod n < n" "- 2147483648 \<le> c" "c + n < 2147483648"
    and "n < 2147483648"
  shows "\<not> wrap32 (c - c smod n + n) \<le> c"
proof -
  have "min 0 c \<le> c - c smod n" "c - c smod n \<le> max 0 c"
    using round_between [OF assms(1), of c] by simp_all
  then have "wrap32 (c - c smod n + n) = c - c smod n + n"
    using assms by (intro wrap32_id) (auto simp: min_def max_def split: if_splits)
  then show ?thesis using assms(2) by simp
qed

lemma handleOTAProgress_repeat:
  assumes "total' \<noteq> 0" "percent_of progress total' < 2147483643"
  shows "logged LOG_I (trace (state_of (handleOTAProgress progress total'
            (state_of (handleOTAProgress progress total' s))))) =
         logged LOG_I (trace (state_of (handleOTAProgress progress total' s)))"
  using assms(1)
        next_threshold [of 5 "percent_of progress total'", OF _ smod_lt percent_of_range(1)]
        assms(2)
  by (simp add: handleOTAProgress_facts)

lemma onOTAProgress_repeat:
  assumes "total' \<noteq> 0" "percent_of progress total' < 2147483638"
    and "percent_of progress total' \<noteq> 100"
  shows "logged LOG_I (trace (state_of (onOTAProgress progress total'
            (state_of (onOTAProgress progress total' s))))) =
         logged LOG_I (trace (state_of (onOTAProgress progress total' s)))"
  using assms(1,3)
        next_threshold [of 10 "percent_of progress total'", OF _ smod_lt10 percent_of_range(1)]
        assms(2)
  by (simp add: onOTAProgress_facts)

text \<open>
  Above these bounds the sum overflows and the same arguments are logged twice in a row.
\<close>
lemma progress_overflow_repeat:
  "logged LOG_I (trace (state_of (handleOTAProgress 1030792151 2
      (state_of (handleOTAProgress 1030792151 2 boot))))) =
     [(''Progress: %u%%'', [ArgI 2147483646]), (''Progress: %u%%'', [ArgI 2147483646])]"
  "logged LOG_I (trace (state_of (onOTAProgress 450971566 1
      (state_of (onOTAProgress 450971566 1 boot))))) =
     [(''OTA update progress: %u%%'', [ArgI 2147483640]),
      (''OTA update progress: %u%%'', [ArgI 2147483640])]"
  by (simp_all add: handleOTAProgress_facts onOTAProgress_facts percent_of_def wrap32_def
        signed_modulo_int_def)

subsection \<open>OTATask\<close>

lemma store_in_progress_simps [simp]:
  "otaUpdateInProgress (store_in_progress v s) = v"
  "otaStatusMutex (store_in_progress v s) = otaStatusMutex s"
  "trace (store_in_progress v s) =
     trace s @ [Take (otaStatusMutex s), StoreInProgress v, Give (otaStatusMutex s)]"
  by (simp_all add: store_in_progress_def)

lemma load_in_progress_simps [simp]:
  "fst (load_in_progress s) = otaUpdateInProgress s"
  "otaUpdateInProgress (snd (load_in_progress s)) = otaUpdateInProgress s"
  "otaStatusMutex (snd (load_in_progress s)) = otaStatusMutex s"
  "trace (snd (load_in_progress s)) =
     trace s @ [Take (otaStatusMutex s), LoadInProgress, Give (otaStatusMutex s)]"
  by (simp_all add: load_in_progress_def)

lemma isInitialized_simps [simp]:
  "fst (isInitialized s) = initialized s"
  "snd (isInitialized s) = emit (Give (mutex s)) (emit (Take (mutex s)) s)"
  by (simp_all add: isInitialized_def)

lemma onOTAStart_facts:
  "otaUpdateInProgress (onOTAStart b s) = True"
  "otaStatusMutex (onOTAStart b s) = otaStatusMutex s"
  "trace (onOTAStart b s) =
     trace s @
       [Log LOG_I ''OTA update starting'' [],
        Take (otaStatusMutex s), StoreInProgress True, Give (otaStatusMutex s)] @
       (if ENABLE_STATUS_LED b then [LedSetBlink 100] else []) @ [SensorSuspend]"
  by (simp_all add: onOTAStart_def Let_def)

lemma onOTAEnd_facts:
  "returned (onOTAEnd b s) = False"
  "otaUpdateInProgress (state_of (onOTAEnd b s)) = False"
  "otaStatusMutex (state_of (onOTAEnd b s)) = otaStatusMutex s"
  "trace (state_of (onOTAEnd b s)) =
     trace s @
       [Log LOG_I ''OTA update complete, rebooting in 1 second'' [],
        Take (otaStatusMutex s), StoreInProgress False, Give (otaStatusMutex s)] @
       (if ENABLE_STATUS_LED b then [LedSetOn] else []) @ [Delay 1000, EspRestart]"
  by (simp_all add: onOTAEnd_def Let_def)

lemma onOTAError_facts:
  "otaUpdateInProgress (onOTAError b e s) = False"
  "otaStatusMutex (onOTAError b e s) = otaStatusMutex s"
  "trace (onOTAError b e s) =
     trace s @
       [Log LOG_E ''OTA Error[%u]: %s'' [ArgU (error_code e), ArgS (errorMsg e)],
        Take (otaStatusMutex s), StoreInProgress False, Give (otaStatusMutex s),
        SensorResume] @
       (if ENABLE_STATUS_LED b then [LedSetPattern 5 100 1500] else [])"
  by (simp_all add: onOTAError_def Let_def)

lemma onOTAProgress_app:
  "otaUpdateInProgress (state_of (onOTAProgress p t s)) = otaUpdateInProgress s"
  "stores (trace (state_of (onOTAProgress p t s))) = stores (trace s)"
  by (simp_all add: onOTAProgress_def Let_def)

lemma taskLoop_app:
  "otaUpdateInProgress (taskLoop b w s) = otaUpdateInProgress s"
  "stores (trace (taskLoop b w s)) = stores (trace s)"
  by (simp_all add: taskLoop_def Let_def case_prod_beta)

lemma OTATask_init_app:
  "otaUpdateInProgress (snd (OTATask_init w alloc s)) = otaUpdateInProgress s"
  "stores (trace (snd (OTATask_init w alloc s))) = stores (trace s)"
  by (simp_all add: OTATask_init_def Let_def case_prod_beta setter_defs)

lemma app_step_stores:
  "stores (trace (state_of (app_step b op s))) =
     stores (trace s) @
       (case op of OtaStart \<Rightarrow> [True] | OtaEnd \<Rightarrow> [False] | OtaError e \<Rightarrow> [False] | _ \<Rightarrow> [])"
  by (cases op)
     (simp_all add: app_step_def taskLoop_app OTATask_init_app onOTAProgress_app
        onOTAStart_facts onOTAEnd_facts onOTAError_facts)

lemma app_step_flag:
  "otaUpdateInProgress (state_of (app_step b op s)) =
     (case op of OtaStart \<Rightarrow> True | OtaEnd \<Rightarrow> False | OtaError e \<Rightarrow> False
      | _ \<Rightarrow> otaUpdateInProgress s)"
  by (cases op)
     (simp_all add: app_step_def taskLoop_app OTATask_init_app onOTAProgress_app
        onOTAStart_facts onOTAEnd_facts onOTAError_facts)

lemma setCallback_lib:
  "initialized s \<Longrightarrow>
   arduinoOTA (snd (setCallback reg msg (Some f) s)) = lib_step (reg f) (arduinoOTA s)"
  by (simp add: setCallback_installed)

lemma OTATask_init_ok:
  assumes "fst (OTATask_init w alloc s)"
  shows "alloc \<noteq> None"
    and "otaStatusMutex (snd (OTATask_init w alloc s)) = alloc"
    and "start_cb (arduinoOTA (snd (OTATask_init w alloc s))) = Some OnOTAStartFn"
    and "end_cb (arduinoOTA (snd (OTATask_init w alloc s))) = Some OnOTAEndFn"
    and "progress_cb (arduinoOTA (snd (OTATask_init w alloc s))) = Some OnOTAProgressFn"
    and "error_cb (arduinoOTA (snd (OTATask_init w alloc s))) = Some OnOTAErrorFn"
  using assms
  by (simp_all add: OTATask_init_def Let_def case_prod_beta setter_defs setCallback_lib
        split: if_splits)

lemma OTATask_init_boot:
  "fst (OTATask_init world0 (Some 2) boot)"
  by (simp add: OTATask_init_def Let_def case_prod_beta initialize_valid
        DEVICE_HOSTNAME_def OTA_PORT_def)

lemma task0_simps [simp]:
  "otaUpdateInProgress task0 = False"
  "stores (trace task0) = []"
  "otaStatusMutex task0 = Some 2"
  using OTATask_init_ok(2) [OF OTATask_init_boot]
  by (simp_all add: task0_def OTATask_init_app)

section \<open>Claims\<close>

text \<open>
  C1 (amended).  The update-in-progress flag is stored in three places only, each store
  between the take and the give of the status mutex: \<open>onOTAStart\<close> stores true,
  \<open>onOTAEnd\<close> and \<open>onOTAError\<close> store false.  Whatever runs in the application (the task's
  \<open>init\<close>, a round of its loop, a lifecycle handler), the stores it makes are exactly
  these: none outside the three handlers.  The handlers store without looking at the
  flag, so a store may repeat the value the flag has; the value of the flag goes from
  false to true only in the start handler, and from true to false only in the end or
  the error handler.  The handlers are registered by \<open>init\<close> only after the status mutex
  has been created.
\<close>
theorem C1_in_progress_transitions:
  "otaUpdateInProgress (onOTAStart b s) = True \<and>
   trace (onOTAStart b s) =
     trace s @
       [Log LOG_I ''OTA update starting'' [],
        Take (otaStatusMutex s), StoreInProgress True, Give (otaStatusMutex s)] @
       (if ENABLE_STATUS_LED b then [LedSetBlink 100] else []) @ [SensorSuspend] \<and>
   otaUpdateInProgress (state_of (onOTAEnd b s)) = False \<and>
   trace (state_of (onOTAEnd b s)) =
     trace s @
       [Log LOG_I ''OTA update complete, rebooting in 1 second'' [],
        Take (otaStatusMutex s), StoreInProgress False, Give (otaStatusMutex s)] @
       (if ENABLE_STATUS_LED b then [LedSetOn] else []) @ [Delay 1000, EspRestart] \<and>
   otaUpdateInProgress (onOTAError b e s) = False \<and>
   trace (onOTAError b e s) =
     trace s @
       [Log LOG_E ''OTA Error[%u]: %s'' [ArgU (error_code e), ArgS (errorMsg e)],
        Take (otaStatusMutex s), StoreInProgress False, Give (otaStatusMutex s),
        SensorResume] @
       (if ENABLE_STATUS_LED b then [LedSetPattern 5 100 1500] else []) \<and>
   stores (trace (state_of (app_step b op s))) =
     stores (trace s) @
       (case op of OtaStart \<Rightarrow> [True] | OtaEnd \<Rightarrow> [False] | OtaError e \<Rightarrow> [False]
        | _ \<Rightarrow> []) \<and>
   otaUpdateInProgress (state_of (app_step b op s)) =
     (case op of OtaStart \<Rightarrow> True | OtaEnd \<Rightarrow> False | OtaError e \<Rightarrow> False
      | _ \<Rightarrow> otaUpdateInProgress s) \<and>
   (otaUpdateInProgress s = False \<and> otaUpdateInProgress (state_of (app_step b op s)) = True
      \<longrightarrow> op = OtaStart) \<and>
   (otaUpdateInProgress s = True \<and> otaUpdateInProgress (state_of (app_step b op s)) = False
      \<longrightarrow> op = OtaEnd \<or> (\<exists>err. op = OtaError err)) \<and>
   (fst (OTATask_init w alloc s) \<longrightarrow>
      alloc \<noteq> None \<and>
      otaStatusMutex (snd (OTATask_init w alloc s)) = alloc \<and>
      fired EvStart (arduinoOTA (snd (OTATask_init w alloc s))) = [OnOTAStartFn] \<and>
      fired EvEnd (arduinoOTA (snd (OTATask_init w alloc s))) = [OnOTAEndFn] \<and>
      fired (EvError e) (arduinoOTA (snd (OTATask_init w alloc s))) = [OnOTAErrorFn])"
  by (simp add: onOTAStart_facts onOTAEnd_facts onOTAError_facts app_step_stores app_step_flag
        OTATask_init_ok split: app_op.splits)

theorem C1_witness:
  "otaUpdateInProgress task0 = False \<and>
   otaUpdateInProgress (state_of (app_step build0 OtaStart task0)) = True \<and>
   stores (trace (state_of (app_step build0 OtaStart task0))) = [True] \<and>
   otaUpdateInProgress
     (state_of (app_step build0 (OtaError OTA_CONNECT_ERROR)
        (state_of (app_step build0 OtaStart task0)))) = False \<and>
   stores (trace
     (state_of (app_step build0 (OtaError OTA_CONNECT_ERROR)
        (state_of (app_step build0 OtaStart task0))))) = [True, False] \<and>
   stores (trace (state_of (app_step build0 (TaskLoop world0)
        (state_of (app_step build0 OtaStart task0))))) = [True] \<and>
   otaStatusMutex (snd (OTATask_init world0 (Some 2) boot)) = Some 2 \<and>
   fired EvStart (arduinoOTA (snd (OTATask_init world0 (Some 2) boot))) = [OnOTAStartFn]"
  using C1_in_progress_transitions [where b = build0 and s = task0 and op = OtaStart]
        C1_in_progress_transitions [where b = build0 and s = "state_of (app_step build0 OtaStart task0)"
              and op = "OtaError OTA_CONNECT_ERROR"]
        C1_in_progress_transitions [where b = build0 and s = "state_of (app_step build0 OtaStart task0)"
              and op = "TaskLoop world0"]
        C1_in_progress_transitions [where s = boot and w = world0 and alloc = "Some 2" and e = OTA_AUTH_ERROR]
  by (simp add: OTATask_init_boot)

text \<open>
  C1, as stated, fails: a second start while an update is in progress stores true on
  true, and an error on the idle device stores false on false, with no opposite store
  in between.
\<close>
theorem C1_counterexample:
  "otaUpdateInProgress (state_of (app_step build0 OtaStart task0)) = True \<and>
   stores (trace (state_of (app_step build0 OtaStart
      (state_of (app_step build0 OtaStart task0))))) = [True, True] \<and>
   otaUpdateInProgress task0 = False \<and>
   stores (trace (state_of (app_step build0 (OtaError OTA_AUTH_ERROR) task0))) = [False]"
  by (simp add: app_step_stores app_step_flag)

text \<open>
  C2.  A call of \<open>initialize\<close> with a null or empty hostname, or with port 0, returns
  and leaves the initialized flag, the stored network-check callback and the
  configuration of the transfer library as they were; it makes no call into the transfer
  library, and the only lock it takes is on a created mutex.
\<close>
theorem C2_initialize_rejects_invalid:
  "hostname = None \<or> hostname = Some [] \<or> port = 0 \<Longrightarrow>
   initialized (initialize w hostname password port cb s) = initialized s \<and>
   networkCheckCallback (initialize w hostname password port cb s) = networkCheckCallback s \<and>
   arduinoOTA (initialize w hostname password port cb s) = arduinoOTA s \<and>
   ota_calls (trace (initialize w hostname password port cb s)) = ota_calls (trace s) \<and>
   takes (trace (initialize w hostname password port cb s)) =
     takes (trace s) @
       (case mutex (initialize w hostname password port cb s) of
          None \<Rightarrow> [] | Some h \<Rightarrow> [Some h])"
  by (simp add: initialize_invalid)

theorem C2_witness:
  "initialized (initialize world0 (Some []) (Some ''pw'') 3232 None boot) = False \<and>
   networkCheckCallback (initialize world0 (Some []) (Some ''pw'') 3232 None boot) = None \<and>
   arduinoOTA (initialize world0 (Some []) (Some ''pw'') 3232 None boot) = lib_boot \<and>
   ota_calls (trace (initialize world0 (Some []) (Some ''pw'') 3232 None boot)) = [] \<and>
   takes (trace (initialize world0 (Some []) (Some ''pw'') 3232 None boot)) = [Some 1]"
  using C2_initialize_rejects_invalid [of "Some []" 3232 world0 "Some ''pw''" None boot]
  by (simp add: initialize_mutex boot_def world0_def)

text \<open>
  C3.  \<open>handleUpdates\<close> does nothing at all, not even take the lock, when the
  initialized flag is false.  When the flag is true and the readiness check says no, it
  makes no call into the transfer library and logs the error line only if the error
  interval has passed since the last one.  When the flag is true and the readiness check
  says yes, it takes the lock and then calls the service routine of the transfer
  library, once; the call under the lock is skipped when the flag is found false there.
\<close>
theorem C3_handleUpdates_gating:
  "(\<not> initialized s \<longrightarrow> handleUpdates b w s = s) \<and>
   (initialized s \<and> \<not> fst (isNetworkReady b w s) \<longrightarrow>
      ota_calls (trace (handleUpdates b w s)) = ota_calls (trace s) \<and>
      trace (handleUpdates b w s) =
        trace (snd (isNetworkReady b w s)) @
          (if OTA_ERROR_LOG_INTERVAL_MS \<le> millis w - lastErrorLog s
           then [Log LOG_E ''Network not connected, skipping OTA check'' []] else []) \<and>
      lastErrorLog (handleUpdates b w s) =
        (if OTA_ERROR_LOG_INTERVAL_MS \<le> millis w - lastErrorLog s then millis w
         else lastErrorLog s)) \<and>
   (initialized s \<and> fst (isNetworkReady b w s) \<longrightarrow>
      ota_calls (trace (handleUpdates b w s)) = ota_calls (trace s) @ [Handle] \<and>
      (\<exists>rest. trace (handleUpdates b w s) =
         trace (snd (isNetworkReady b w s)) @ Take (mutex s) # OTA Handle # rest)) \<and>
   (\<not> initialized s \<longrightarrow> ota_calls (trace (service b w s)) = ota_calls (trace s))"
proof (intro conjI impI)
  assume "\<not> initialized s"
  then show "handleUpdates b w s = s" by (rule handleUpdates_uninitialized)
next
  assume a: "initialized s \<and> \<not> fst (isNetworkReady b w s)"
  then have eq: "handleUpdates b w s = not_ready w (snd (isNetworkReady b w s))"
    by (simp add: handleUpdates_not_ready)
  show "ota_calls (trace (handleUpdates b w s)) = ota_calls (trace s)"
    unfolding eq by simp
  show "trace (handleUpdates b w s) =
        trace (snd (isNetworkReady b w s)) @
          (if OTA_ERROR_LOG_INTERVAL_MS \<le> millis w - lastErrorLog s
           then [Log LOG_E ''Network not connected, skipping OTA check'' []] else [])"
    unfolding eq by simp
  show "lastErrorLog (handleUpdates b w s) =
        (if OTA_ERROR_LOG_INTERVAL_MS \<le> millis w - lastErrorLog s then millis w
         else lastErrorLog s)"
    unfolding eq by simp
next
  assume a: "initialized s \<and> fst (isNetworkReady b w s)"
  then have eq: "handleUpdates b w s = service b w (snd (isNetworkReady b w s))"
    by (simp add: handleUpdates_ready)
  show "ota_calls (trace (handleUpdates b w s)) = ota_calls (trace s) @ [Handle]"
    unfolding eq using a by simp
  show "\<exists>rest. trace (handleUpdates b w s) =
         trace (snd (isNetworkReady b w s)) @ Take (mutex s) # OTA Handle # rest"
    unfolding eq using a service_trace [of b w "snd (isNetworkReady b w s)"] by simp
next
  assume "\<not> initialized s"
  then show "ota_calls (trace (service b w s)) = ota_calls (trace s)" by simp
qed

theorem C3_witness:
  "handleUpdates build0 world0 boot = boot \<and>
   ota_calls (trace (handleUpdates build0 world_down dev1)) = ota_calls (trace dev1) \<and>
   logged LOG_E (trace (handleUpdates build0 world_down dev1)) =
     logged LOG_E (trace dev1) @ [(''Network not connected, skipping OTA check'', [])] \<and>
   ota_calls (trace (handleUpdates build0 world0 dev1)) = ota_calls (trace dev1) @ [Handle]"
  using C3_handleUpdates_gating [of boot build0 world0] C3_handleUpdates_gating [of dev1 build0 world_down] C3_handleUpdates_gating [of dev1 build0 world0]
  by (simp add: isNetworkReady_custom isNetworkConnected_def OTA_ERROR_LOG_INTERVAL_MS_def)

text \<open>
  C4 (amended).  Called while the initialized flag is false, each of the four setters
  leaves the configuration of the transfer library, and so every callback slot, as it
  was, and logs a warning; it returns nothing (\<^verbatim>\<open>void\<close>).  Called while the flag is true
  with a non-null callback, it installs the callback: the matching lifecycle event then
  invokes exactly that callback, once.
\<close>

theorem C4_setter_gating:
  "(\<not> initialized s \<longrightarrow>
      arduinoOTA (snd (setStartCallback cb s)) = arduinoOTA s \<and>
      arduinoOTA (snd (setEndCallback cb s)) = arduinoOTA s \<and>
      arduinoOTA (snd (setProgressCallback cb s)) = arduinoOTA s \<and>
      arduinoOTA (snd (setErrorCallback cb s)) = arduinoOTA s \<and>
      logged LOG_W (trace (snd (setStartCallback cb s))) =
        logged LOG_W (trace s) @ [(''Cannot set callback - OTA not initialized'', [])] \<and>
      logged LOG_W (trace (snd (setEndCallback cb s))) =
        logged LOG_W (trace s) @ [(''Cannot set callback - OTA not initialized'', [])] \<and>
      logged LOG_W (trace (snd (setProgressCallback cb s))) =
        logged LOG_W (trace s) @ [(''Cannot set callback - OTA not initialized'', [])] \<and>
      logged LOG_W (trace (snd (setErrorCallback cb s))) =
        logged LOG_W (trace s) @ [(''Cannot set callback - OTA not initialized'', [])]) \<and>
   (initialized s \<longrightarrow>
      fired EvStart (arduinoOTA (snd (setStartCallback (Some f) s))) = [f] \<and>
      fired EvEnd (arduinoOTA (snd (setEndCallback (Some f) s))) = [f] \<and>
      fired (EvProgress p t) (arduinoOTA (snd (setProgressCallback (Some f) s))) = [f] \<and>
      fired (EvError e) (arduinoOTA (snd (setErrorCallback (Some f) s))) = [f])"
  by (simp add: setter_defs setCallback_rejected setCallback_installed)

theorem C4_witness:
  "start_cb (arduinoOTA (snd (setStartCallback (Some OnOTAStartFn) boot))) = None \<and>
   logged LOG_W (trace (snd (setStartCallback (Some OnOTAStartFn) boot))) =
     [(''Cannot set callback - OTA not initialized'', [])] \<and>
   fired EvStart (arduinoOTA (snd (setStartCallback (Some OnOTAStartFn) dev1))) = [OnOTAStartFn]"
  using C4_setter_gating [of boot "Some OnOTAStartFn"] C4_setter_gating [of dev1 cb OnOTAStartFn]
  by (simp add: lib_boot_def)

text \<open>
  C4, as stated, fails: the value a setter hands back is the same whether the call was
  rejected (on the booted, uninitialized device) or installed the callback (after
  \<open>initialize\<close>), so it indicates no failure.
\<close>

theorem C4_counterexample:
  "fst (setStartCallback (Some OnOTAStartFn) boot) =
     fst (setStartCallback (Some OnOTAStartFn) dev1) \<and>
   fired EvStart (arduinoOTA (snd (setStartCallback (Some OnOTAStartFn) boot))) = [] \<and>
   fired EvStart (arduinoOTA (snd (setStartCallback (Some OnOTAStartFn) dev1))) = [OnOTAStartFn]"
  by (simp add: setter_defs setCallback_rejected setCallback_installed lib_boot_def)




text \<open>
  C6.  With a caller-supplied predicate the readiness check returns the predicate's
  result and queries nothing else.  Without one it never calls a predicate; it returns
  the result of the default probe: the wired link first (link speed, then address), the
  wireless one only when the wired check failed (association, then address).
\<close>

theorem C6_readiness_override:
  "(networkCheckCallback s = Some cb \<longrightarrow>
      fst (isNetworkReady b w s) = cb w \<and>
      trace (snd (isNetworkReady b w s)) =
        trace s @ [Take (mutex s), CallNetworkCheck, Give (mutex s)]) \<and>
   (networkCheckCallback s = None \<longrightarrow>
      fst (isNetworkReady b w s) =
        (ESP32_defined b \<and>
         (ETH_defined b \<and> 0 < eth_linkSpeed w \<and> eth_localIP w \<noteq> 0 \<or>
          CONFIG_WIFI_ENABLED b \<and> wifi_status w = WL_CONNECTED \<and> wifi_localIP w \<noteq> 0)) \<and>
      filter is_query (trace (snd (isNetworkReady b w s))) =
        filter is_query (trace s) @
          (if ESP32_defined b \<and> ETH_defined b then
             (if 0 < eth_linkSpeed w then [EthLinkSpeed, EthLocalIP] else [EthLinkSpeed])
           else []) @
          (if ESP32_defined b \<and> ETH_defined b \<and> 0 < eth_linkSpeed w \<and> eth_localIP w \<noteq> 0
           then []
           else if ESP32_defined b \<and> CONFIG_WIFI_ENABLED b then
             (if wifi_status w = WL_CONNECTED then [WiFiStatus, WiFiLocalIP] else [WiFiStatus])
           else []))"
  using isNetworkReady_default_result [of s b w] isNetworkReady_default_queries [of s b w]
  by (simp add: isNetworkReady_custom)

theorem C6_witness:
  "fst (isNetworkReady build_both world_wifi dev1) = False \<and>
   filter is_query (trace (snd (isNetworkReady build_both world_wifi dev1))) =
     filter is_query (trace dev1) @ [CallNetworkCheck] \<and>
   fst (isNetworkReady build_both world_wifi boot) = True \<and>
   filter is_query (trace (snd (isNetworkReady build_both world_wifi boot))) =
     [EthLinkSpeed, WiFiStatus, WiFiLocalIP] \<and>
   filter is_query (trace (snd (isNetworkReady build_both world0 boot))) =
     [EthLinkSpeed, EthLocalIP]"
  using C6_readiness_override [of dev1 isNetworkConnected build_both world_wifi]
        C6_readiness_override [of boot cb build_both world_wifi] C6_readiness_override [of boot cb build_both world0]
  by (simp add: isNetworkConnected_def world_wifi_def build_both_def WL_CONNECTED_def)

text \<open>
  C7 (amended).  For a non-zero total, the progress handler of the example task
  (\<open>onOTAProgress\<close>) returns, feeds the watchdog once, as its last action, and logs only
  when the percentage has reached the last logged decade plus 10, the sum taken in 32-bit
  arithmetic, or equals 100; called again with the same arguments it logs again only at
  100, as long as the percentage is at most 2147483637, so that the sum cannot
  overflow.  The default handler of the manager (\<open>handleOTAProgress\<close>) returns, logs only
  when the percentage has reached the last logged step plus 5, the sum taken in 32-bit
  arithmetic, does not log on an immediate repetition as long as the percentage is at
  most 2147483642, and does not feed the watchdog.
\<close>
theorem C7_progress_handlers:
  "total' \<noteq> 0 \<Longrightarrow>
   returned (onOTAProgress progress total' s) \<and>
   feeds (trace (state_of (onOTAProgress progress total' s))) = feeds (trace s) + 1 \<and>
   last (trace (state_of (onOTAProgress progress total' s))) = WdtReset \<and>
   logged LOG_I (trace (state_of (onOTAProgress progress total' s))) =
     logged LOG_I (trace s) @
       (if wrap32 (lastPercent s + 10) \<le> percent_of progress total' \<or>
           percent_of progress total' = 100
        then [(''OTA update progress: %u%%'', [ArgI (percent_of progress total')])] else []) \<and>
   lastPercent (state_of (onOTAProgress progress total' s)) =
     (if wrap32 (lastPercent s + 10) \<le> percent_of progress total' \<or>
         percent_of progress total' = 100
      then percent_of progress total' - (percent_of progress total' smod 10)
      else lastPercent s) \<and>
   (percent_of progress total' < 2147483638 \<longrightarrow>
      percent_of progress total' = 100 \<or>
      logged LOG_I (trace (state_of (onOTAProgress progress total'
          (state_of (onOTAProgress progress total' s))))) =
      logged LOG_I (trace (state_of (onOTAProgress progress total' s)))) \<and>
   returned (handleOTAProgress progress total' s) \<and>
   feeds (trace (state_of (handleOTAProgress progress total' s))) = feeds (trace s) \<and>
   logged LOG_I (trace (state_of (handleOTAProgress progress total' s))) =
     logged LOG_I (trace s) @
       (if wrap32 (lastPrintedStep s + 5) \<le> percent_of progress total'
        then [(''Progress: %u%%'', [ArgI (percent_of progress total')])] else []) \<and>
   lastPrintedStep (state_of (handleOTAProgress progress total' s)) =
     (if wrap32 (lastPrintedStep s + 5) \<le> percent_of progress total'
      then percent_of progress total' - (percent_of progress total' smod 5)
      else lastPrintedStep s) \<and>
   (percent_of progress total' < 2147483643 \<longrightarrow>
      logged LOG_I (trace (state_of (handleOTAProgress progress total'
          (state_of (handleOTAProgress progress total' s))))) =
      logged LOG_I (trace (state_of (handleOTAProgress progress total' s))))"
proof -
  assume t: "total' \<noteq> 0"
  have rep:
    "percent_of progress total' < 2147483638 \<longrightarrow>
     percent_of progress total' = 100 \<or>
     logged LOG_I (trace (state_of (onOTAProgress progress total'
        (state_of (onOTAProgress progress total' s))))) =
     logged LOG_I (trace (state_of (onOTAProgress progress total' s)))"
  proof (intro impI, cases "percent_of progress total' = 100")
    case True
    then show "percent_of progress total' = 100 \<or>
     logged LOG_I (trace (state_of (onOTAProgress progress total'
        (state_of (onOTAProgress progress total' s))))) =
     logged LOG_I (trace (state_of (onOTAProgress progress total' s)))" by simp
  next
    case False
    assume "percent_of progress total' < 2147483638"
    then show "percent_of progress total' = 100 \<or>
     logged LOG_I (trace (state_of (onOTAProgress progress total'
        (state_of (onOTAProgress progress total' s))))) =
     logged LOG_I (trace (state_of (onOTAProgress progress total' s)))"
      by (intro disjI2 onOTAProgress_repeat [OF t _ False])
  qed
  have rep5:
    "percent_of progress total' < 2147483643 \<longrightarrow>
      logged LOG_I (trace (state_of (handleOTAProgress progress total'
          (state_of (handleOTAProgress progress total' s))))) =
      logged LOG_I (trace (state_of (handleOTAProgress progress total' s)))"
    by (intro impI handleOTAProgress_repeat [OF t])
  show ?thesis
    by (intro conjI rep rep5 handleOTAProgress_facts [OF t] onOTAProgress_facts [OF t])
qed

theorem C7_witness:
  "feeds (trace (state_of (onOTAProgress 50 100 boot))) = 1 \<and>
   last (trace (state_of (onOTAProgress 50 100 boot))) = WdtReset \<and>
   logged LOG_I (trace (state_of (onOTAProgress 50 100 boot))) =
     [(''OTA update progress: %u%%'', [ArgI 50])] \<and>
   lastPercent (state_of (onOTAProgress 50 100 boot)) = 50 \<and>
   logged LOG_I (trace (state_of (onOTAProgress 50 100 (state_of (onOTAProgress 50 100 boot))))) =
     [(''OTA update progress: %u%%'', [ArgI 50])] \<and>
   feeds (trace (state_of (handleOTAProgress 50 100 boot))) = 0 \<and>
   logged LOG_I (trace (state_of (handleOTAProgress 50 100 boot))) =
     [(''Progress: %u%%'', [ArgI 50])] \<and>
   logged LOG_I (trace (state_of (handleOTAProgress 50 100
       (state_of (handleOTAProgress 50 100 boot))))) =
     [(''Progress: %u%%'', [ArgI 50])]"
  using C7_progress_handlers [of 100 50 boot]
  by (simp add: signed_modulo_int_def wrap32_def)

text \<open>
  C7, as stated, fails: the default progress handler returns without feeding the
  watchdog, and the handler of the example task logs on every invocation at 100 percent.
\<close>

theorem C7_counterexample:
  "returned (handleOTAProgress 50 100 boot) \<and>
   feeds (trace (state_of (handleOTAProgress 50 100 boot))) = 0 \<and>
   logged LOG_I (trace (state_of (onOTAProgress 100 100 (state_of (onOTAProgress 100 100 boot))))) =
     [(''OTA update progress: %u%%'', [ArgI 100]), (''OTA update progress: %u%%'', [ArgI 100])]"
  by (simp add: handleOTAProgress_facts onOTAProgress_facts)

text \<open>
  C8.  After a successful initialization, each of the four setters called with a null
  callback only takes and gives the lock: the library's configuration, and so every
  slot, is untouched and nothing is logged.
\<close>

theorem C8_null_callback_noop:
  "initialized s \<Longrightarrow>
   setStartCallback None s = ((), emit (Give (mutex s)) (emit (Take (mutex s)) s)) \<and>
   setEndCallback None s = ((), emit (Give (mutex s)) (emit (Take (mutex s)) s)) \<and>
   setProgressCallback None s = ((), emit (Give (mutex s)) (emit (Take (mutex s)) s)) \<and>
   setErrorCallback None s = ((), emit (Give (mutex s)) (emit (Take (mutex s)) s)) \<and>
   arduinoOTA (emit (Give (mutex s)) (emit (Take (mutex s)) s)) = arduinoOTA s \<and>
   trace (emit (Give (mutex s)) (emit (Take (mutex s)) s)) =
     trace s @ [Take (mutex s), Give (mutex s)]"
  by (simp add: setter_defs setCallback_null)

theorem C8_witness:
  "arduinoOTA (snd (setStartCallback None dev1)) = arduinoOTA dev1 \<and>
   arduinoOTA (snd (setProgressCallback None dev1)) = arduinoOTA dev1 \<and>
   trace (snd (setEndCallback None dev1)) = trace dev1 @ [Take (Some 1), Give (Some 1)] \<and>
   trace (snd (setErrorCallback None dev1)) = trace dev1 @ [Take (Some 1), Give (Some 1)]"
  using C8_null_callback_noop [of dev1] by simp

text \<open>
  C9.  Both progress handlers divide by \<open>total\<close> without a guard: with \<open>total = 0\<close> every
  invocation ends in the integer division by zero, before anything else happens; with
  \<open>total\<close> non-zero both return.
\<close>

theorem C9_progress_division:
  "handleOTAProgress progress 0 s = Inl (IntegerDivideByZero, s) \<and>
   onOTAProgress progress 0 s = Inl (IntegerDivideByZero, s) \<and>
   (total' \<noteq> 0 \<longrightarrow>
      returned (handleOTAProgress progress total' s) \<and>
      returned (onOTAProgress progress total' s))"
  by (simp add: handleOTAProgress_zero onOTAProgress_zero handleOTAProgress_facts
        onOTAProgress_facts)

theorem C9_witness:
  "handleOTAProgress 50 0 boot = Inl (IntegerDivideByZero, boot) \<and>
   onOTAProgress 50 0 boot = Inl (IntegerDivideByZero, boot) \<and>
   returned (handleOTAProgress 50 100 boot) \<and>
   returned (onOTAProgress 50 100 boot)"
  using C9_progress_division [of 50 boot 100] by simp



end
